theory Spec2Isabelle
  imports Main
begin

section \<open>Strings as Python sees them\<close>

text \<open>
  Strings are byte lists, so the model covers ASCII text. \<open>isspace\<close> is the ASCII part
  of what \<^verbatim>\<open>str.strip()\<close> removes and what \<^verbatim>\<open>\s\<close> matches; \<open>isdigit\<close> the ASCII part
  of \<^verbatim>\<open>\d\<close>.
\<close>

definition isspace :: "char \<Rightarrow> bool" where
  "isspace c = (c \<in> set [CHR 0x09, CHR 0x0A, CHR 0x0B, CHR 0x0C, CHR 0x0D,
                           CHR 0x1C, CHR 0x1D, CHR 0x1E, CHR 0x1F, CHR 0x20])"

definition isdigit :: "char \<Rightarrow> bool" where
  "isdigit c = (c \<in> set ''0123456789'')"


definition strip :: "string \<Rightarrow> string" where
  "strip s = rev (dropWhile isspace (rev (dropWhile isspace s)))"

text \<open>\<^verbatim>\<open>"{}".format(n)\<close> for a non-negative integer: its decimal digits.\<close>

definition digit_char :: "nat \<Rightarrow> char" where
  "digit_char d = ''0123456789'' ! d"

fun str_nat :: "nat \<Rightarrow> string" where
  "str_nat n = (if n < 10 then [digit_char n] else str_nat (n div 10) @ [digit_char (n mod 10)])"

declare str_nat.simps [simp del]

section \<open>Identifier Extractor\<close>

text \<open>
  \<^verbatim>\<open>re.search("[\s_]?(\d{8,16}X?)(_v\d)?", fname)\<close>, group 1.

  \<open>scn_group\<close> matches \<^verbatim>\<open>(\d{8,16}X?)(_v\d)?\<close> at the head of the string: the greedy digit run
  (at most 16, at least 8), then an \<^verbatim>\<open>X\<close> when one follows. What comes after is optional and
  outside the group, so the first greedy attempt is the match and the group is all that is
  returned. \<open>match_here\<close> puts the optional \<^verbatim>\<open>[\s_]\<close> in front (taken first, given back when
  the rest fails), and \<open>re_search\<close> tries every start position from the left.
\<close>

definition scn_group :: "string \<Rightarrow> string option" where
  "scn_group s =
     (let ds = takeWhile isdigit (take 16 s) in
      if length ds < 8 then None
      else Some (ds @ (case drop (length ds) s of
                         [] \<Rightarrow> []
                       | c # _ \<Rightarrow> if c = CHR ''X'' then [c] else [])))"

definition match_here :: "string \<Rightarrow> string option" where
  "match_here s =
     (case s of
        [] \<Rightarrow> scn_group s
      | c # r \<Rightarrow>
          if isspace c \<or> c = CHR ''_'' then
            (case scn_group r of Some g \<Rightarrow> Some g | None \<Rightarrow> scn_group s)
          else scn_group s)"

fun re_search :: "string \<Rightarrow> string option" where
  "re_search [] = match_here []"
| "re_search (c # r) =
     (case match_here (c # r) of Some g \<Rightarrow> Some g | None \<Rightarrow> re_search r)"

definition discover_scns :: "string list \<Rightarrow> string list" where
  "discover_scns discoverable =
     concat (map (\<lambda>fname. case re_search fname of Some g \<Rightarrow> [g] | None \<Rightarrow> []) discoverable)"

text \<open>
  \<open>plaintext_to_index\<close> is given the lines of the text file (\<^verbatim>\<open>ptf.read().splitlines()\<close>),
  \<open>filenames_to_index\<close> the paths \<^verbatim>\<open>glob.glob(directory + "/*.epub")\<close> returns.
\<close>

definition plaintext_to_index :: "string list \<Rightarrow> string list" where
  "plaintext_to_index lines = discover_scns lines"

definition filenames_to_index :: "string list \<Rightarrow> string list" where
  "filenames_to_index epubs = discover_scns epubs"

section \<open>Matcher\<close>

text \<open>
  \<open>scn_collection\<close> is a list of one-entry dicts \<^verbatim>\<open>{record: tag.text}\<close>: a list of pairs.
  \<open>uniq\<close> is \<^verbatim>\<open>list(dict.fromkeys(xs))\<close>: the first occurrence of each element stays.
\<close>

fun uniq :: "'a list \<Rightarrow> 'a list" where
  "uniq [] = []"
| "uniq (x # xs) = x # filter (\<lambda>y. y \<noteq> x) (uniq xs)"

definition matching_record_ids :: "string list \<Rightarrow> (string \<times> string) list \<Rightarrow> string list" where
  "matching_record_ids index scn_collection =
     map fst (filter (\<lambda>(key, val). strip val \<in> set index) scn_collection)"

definition matching_whitelist_uniq :: "string list \<Rightarrow> (string \<times> string) list \<Rightarrow> string list" where
  "matching_whitelist_uniq index scn_collection = uniq (matching_record_ids index scn_collection)"

text \<open>
  The result is \<^verbatim>\<open>list(set(keys) - set(matching_whitelist_uniq))\<close>. Python leaves the order of
  that list open; the model lists the keys in the order of their first occurrence, and
  the theorems below speak of the set of its elements and of its length only.
\<close>

definition diff_index_records :: "string list \<Rightarrow> (string \<times> string) list \<Rightarrow> string list" where
  "diff_index_records index scn_collection =
     filter (\<lambda>k. k \<notin> set (matching_whitelist_uniq index scn_collection))
       (uniq (map fst scn_collection))"

section \<open>The document tree\<close>

text \<open>
  The tree is what \<^verbatim>\<open>BeautifulSoup(marcxml_file, features="xml")\<close> hands to the program;
  parsing the text is the library's work and the model starts from its result. A \<open>Tag\<close>
  has its name with the prefix (\<^verbatim>\<open>marc:record\<close>), its attributes and its contents. A
  \<open>NavigableString\<close> is text. A \<open>PreformattedString\<close> is a comment, a processing
  instruction or a declaration: the string classes that \<^verbatim>\<open>.text\<close> leaves out. The document
  object is a tag too, named \<^verbatim>\<open>[document]\<close>, whose contents are the top-level nodes.
\<close>

datatype node =
    Tag string "(string \<times> string) list" "node list"
  | NavigableString string
  | PreformattedString string

definition BeautifulSoup :: "node list \<Rightarrow> node" where
  "BeautifulSoup nodes = Tag ''[document]'' [] nodes"

fun contents :: "node \<Rightarrow> node list" where
  "contents (Tag name attrs cs) = cs"
| "contents _ = []"

text \<open>\<^verbatim>\<open>tag.text\<close>: the text strings below the tag, in document order, joined.\<close>

fun get_text :: "node \<Rightarrow> string" where
  "get_text (Tag name attrs cs) = concat (map get_text cs)"
| "get_text (NavigableString s) = s"
| "get_text (PreformattedString s) = []"

text \<open>
  \<^verbatim>\<open>tag.string\<close>: defined when the tag has exactly one child, which is a string of any
  class or a tag that has a \<^verbatim>\<open>.string\<close> itself.
\<close>

fun tag_string :: "node \<Rightarrow> string option" where
  "tag_string (Tag name attrs [NavigableString s]) = Some s"
| "tag_string (Tag name attrs [PreformattedString s]) = Some s"
| "tag_string (Tag name attrs [Tag name' attrs' cs]) = tag_string (Tag name' attrs' cs)"
| "tag_string _ = None"

definition is_tag :: "string \<Rightarrow> node \<Rightarrow> bool" where
  "is_tag name n = (case n of Tag name' _ _ \<Rightarrow> name' = name | _ \<Rightarrow> False)"

definition attr :: "node \<Rightarrow> string \<Rightarrow> string option" where
  "attr n k = (case n of Tag _ attrs _ \<Rightarrow> map_of attrs k | _ \<Rightarrow> None)"

text \<open>
  \<open>walk p n\<close> lists the descendants of \<open>n\<close> in document order, each with its path (child
  indices from the node the search started at, below the prefix \<open>p\<close>) and its parent.
\<close>

type_synonym hit = "nat list \<times> node \<times> node"

fun walk :: "nat list \<Rightarrow> node \<Rightarrow> hit list"
  and walk_contents :: "nat list \<Rightarrow> node \<Rightarrow> nat \<Rightarrow> node list \<Rightarrow> hit list" where
  "walk p (Tag name attrs cs) = walk_contents p (Tag name attrs cs) 0 cs"
| "walk p (NavigableString s) = []"
| "walk p (PreformattedString s) = []"
| "walk_contents p par i [] = []"
| "walk_contents p par i (c # cs) =
     (p @ [i], par, c) # walk (p @ [i]) c @ walk_contents p par (Suc i) cs"

text \<open>
  What \<^verbatim>\<open>find_all(name, attrs, string=...)\<close> tests on an element: it is a tag of that name,
  every listed attribute has the listed value, and, when a non-empty \<open>string\<close> is asked
  for, the tag's \<^verbatim>\<open>.string\<close> is that string (an empty one is no restriction).
\<close>

definition strainer :: "string \<Rightarrow> (string \<times> string) list \<Rightarrow> string option \<Rightarrow> node \<Rightarrow> bool" where
  "strainer name attrs str n =
     (is_tag name n \<and> list_all (\<lambda>(k, v). attr n k = Some v) attrs \<and>
      (case str of None \<Rightarrow> True | Some u \<Rightarrow> u = [] \<or> tag_string n = Some u))"

definition find_all :: "string \<Rightarrow> (string \<times> string) list \<Rightarrow> string option \<Rightarrow> node \<Rightarrow> hit list" where
  "find_all name attrs str n = filter (\<lambda>(p, par, c). strainer name attrs str c) (walk [] n)"

text \<open>\<^verbatim>\<open>find\<close> is the first result of \<^verbatim>\<open>find_all\<close>, or \<^verbatim>\<open>None\<close>.\<close>

definition find_first :: "string \<Rightarrow> (string \<times> string) list \<Rightarrow> string option \<Rightarrow> node \<Rightarrow> hit option" where
  "find_first name attrs str n =
     (case find_all name attrs str n of [] \<Rightarrow> None | h # _ \<Rightarrow> Some h)"

text \<open>Taking the node at a path out of the tree (\<^verbatim>\<open>extract\<close>, \<^verbatim>\<open>decompose\<close>).\<close>

fun delete_at :: "nat list \<Rightarrow> node \<Rightarrow> node" where
  "delete_at [] n = n"
| "delete_at [i] (Tag name attrs cs) = Tag name attrs (take i cs @ drop (Suc i) cs)"
| "delete_at (i # j # p) (Tag name attrs cs) =
     (if i < length cs then Tag name attrs (cs[i := delete_at (j # p) (cs ! i)])
      else Tag name attrs cs)"
| "delete_at p n = n"

datatype py_error = AttributeError | KeyError | OSError | DocumentDecomposed

section \<open>Record Parser\<close>

record parsed =
  len :: nat
  collection :: "(string \<times> string) list"
  soup :: node

text \<open>
  \<^verbatim>\<open>if len(check_extra) > 1: check_extra[1].extract()\<close>
\<close>

definition extract_extra :: "node \<Rightarrow> node" where
  "extract_extra marcxml_soup =
     (if length (contents marcxml_soup) > 1 then delete_at [1] marcxml_soup else marcxml_soup)"

text \<open>
  The test of the loop,
  \<^verbatim>\<open>tag.attrs['tag'] == '028' and tag.find('marc:subfield').attrs['code'] == 'a'\<close>:
  a missing attribute is a \<^verbatim>\<open>KeyError\<close>, a datafield 028 with no subfield an
  \<^verbatim>\<open>AttributeError\<close> (\<^verbatim>\<open>find\<close> gave \<^verbatim>\<open>None\<close>). The right operand is evaluated only for tag 028.
\<close>

definition qualifies :: "node \<Rightarrow> py_error + bool" where
  "qualifies tag =
     (case attr tag ''tag'' of
        None \<Rightarrow> Inl KeyError
      | Some t \<Rightarrow>
          if t \<noteq> ''028'' then Inr False
          else (case find_first ''marc:subfield'' [] None tag of
                  None \<Rightarrow> Inl AttributeError
                | Some (p, par, sf) \<Rightarrow>
                    (case attr sf ''code'' of
                       None \<Rightarrow> Inl KeyError
                     | Some c \<Rightarrow> Inr (c = ''a''))))"

text \<open>
  The loop over \<open>tag_collection\<close>; \<open>scn_collection\<close> is the accumulator. The key is
  \<^verbatim>\<open>tag.parent.find('marc:controlfield', {"tag": "001"}).text\<close>, an \<^verbatim>\<open>AttributeError\<close> when
  the parent has no such controlfield.
\<close>

fun scan_tags :: "hit list \<Rightarrow> (string \<times> string) list \<Rightarrow> py_error + (string \<times> string) list" where
  "scan_tags [] scn_collection = Inr scn_collection"
| "scan_tags ((p, par, tag) # tags) scn_collection =
     (case qualifies tag of
        Inl e \<Rightarrow> Inl e
      | Inr False \<Rightarrow> scan_tags tags scn_collection
      | Inr True \<Rightarrow>
          (case find_first ''marc:controlfield'' [(''tag'', ''001'')] None par of
             None \<Rightarrow> Inl AttributeError
           | Some (q, par', cf) \<Rightarrow>
               scan_tags tags (scn_collection @ [(get_text cf, get_text tag)])))"

definition parse_marcxml :: "node \<Rightarrow> py_error + parsed" where
  "parse_marcxml marcxml_soup0 =
     (let marcxml_soup = extract_extra marcxml_soup0;
          tag_collection = find_all ''marc:datafield'' [] None marcxml_soup;
          record_length = length (find_all ''marc:record'' [] None marcxml_soup)
      in case scan_tags tag_collection [] of
           Inl e \<Rightarrow> Inl e
         | Inr scn_collection \<Rightarrow>
             Inr \<lparr>len = record_length, collection = scn_collection, soup = marcxml_soup\<rparr>)"

section \<open>Paths, files and the console\<close>

text \<open>
  \<^verbatim>\<open>os.path.split\<close> and \<^verbatim>\<open>os.path.dirname\<close> of \<^verbatim>\<open>posixpath\<close>: the head is everything up to
  and including the last slash, with its trailing slashes removed unless it consists of
  slashes only; the tail is what follows the last slash.
\<close>

definition sep_index :: "string \<Rightarrow> nat" where
  "sep_index p = length p - length (takeWhile (\<lambda>c. c \<noteq> CHR ''/'') (rev p))"

definition rstrip_sep :: "string \<Rightarrow> string" where
  "rstrip_sep h = rev (dropWhile (\<lambda>c. c = CHR ''/'') (rev h))"

definition path_split :: "string \<Rightarrow> string \<times> string" where
  "path_split p =
     (let i = sep_index p; head = take i p; tail = drop i p
      in (if head \<noteq> [] \<and> head \<noteq> replicate (length head) CHR ''/'' then rstrip_sep head else head,
          tail))"

definition dirname :: "string \<Rightarrow> string" where
  "dirname p =
     (let i = sep_index p; head = take i p
      in if head \<noteq> [] \<and> head \<noteq> replicate (length head) CHR ''/'' then rstrip_sep head else head)"

text \<open>
  The world outside the process: the files (path to content) and the lines written by
  \<^verbatim>\<open>click.echo\<close>. The progress bars are display only and are left out.
\<close>

type_synonym filesys = "string \<Rightarrow> string option"

record world =
  fs :: filesys
  out :: "string list"

definition echo :: "string \<Rightarrow> world \<Rightarrow> world" where
  "echo msg w = w\<lparr>out := out w @ [msg]\<rparr>"

text \<open>
  What the program takes from its libraries and its system: \<open>str_of\<close> is \<^verbatim>\<open>str(tag)\<close>, the
  serialiser of the tree; \<open>os_system\<close> runs a shell command on the files and gives its exit
  status and the files afterwards; \<open>open_w\<close> tells whether \<^verbatim>\<open>open(path, 'w')\<close> succeeds.
\<close>

record env =
  str_of :: "node \<Rightarrow> string"
  os_system :: "string \<Rightarrow> filesys \<Rightarrow> int \<times> filesys"
  open_w :: "filesys \<Rightarrow> string \<Rightarrow> bool"

section \<open>Unmatched Exporter\<close>

definition not_found_msg :: "string \<Rightarrow> string" where
  "not_found_msg u =
     ''A parent marc:record element was not found for 001: '' @ u @ ''. Skipping...''"

text \<open>
  The first loop of \<open>save_unmatched_records\<close>:
  \<^verbatim>\<open>soup.find('marc:controlfield', string=u).parent\<close>, with the \<^verbatim>\<open>AttributeError\<close> of a
  failed \<^verbatim>\<open>find\<close> caught and reported.
\<close>

fun locate_unmatched :: "node \<Rightarrow> string list \<Rightarrow> node list \<times> world \<Rightarrow> node list \<times> world" where
  "locate_unmatched sp [] acc = acc"
| "locate_unmatched sp (u # us) (unmatched_records, w) =
     (case find_first ''marc:controlfield'' [] (Some u) sp of
        Some (p, par, cf) \<Rightarrow> locate_unmatched sp us (unmatched_records @ [par], w)
      | None \<Rightarrow> locate_unmatched sp us (unmatched_records, echo (not_found_msg u) w))"

text \<open>
  The path of the audit file. The source compares with \<^verbatim>\<open>is not ''\<close>; the empty string is one
  shared object in CPython, so the test is that of inequality.
\<close>

definition unmatched_records_file :: "nat \<Rightarrow> string \<Rightarrow> string" where
  "unmatched_records_file n name =
     dirname name @ ''/'' @ str_nat n @ ''_unmatchable_'' @
       (if dirname name \<noteq> [] then snd (path_split name) else name)"

definition collection_header :: string where
  \<open>collection_header =
     ''<?xml version="1.0" encoding="UTF-8" ?><marc:collection xmlns:marc="http://www.loc.gov/MARC21/slim" xmlns:xsi="http://www.w3.org/2001/XMLSchema-instance" xsi:schemaLocation="http://www.loc.gov/MARC21/slim http://www.loc.gov/standards/marcxml/schema/MARC21slim.xsd">''\<close>

definition collection_footer :: string where
  "collection_footer = ''</marc:collection>''"

definition save_unmatched_records ::
    "env \<Rightarrow> string list \<Rightarrow> node \<Rightarrow> string \<Rightarrow> world \<Rightarrow> (py_error + unit) \<times> world" where
  "save_unmatched_records e unmatched_record_ids sp name w =
     (let (unmatched_records, w1) = locate_unmatched sp unmatched_record_ids ([], w);
          writeable_unmatched_records = map (str_of e) unmatched_records;
          file = unmatched_records_file (length unmatched_record_ids) name
      in if \<not> open_w e (fs w1) file then (Inl OSError, w1)
         else
           let w2 = w1\<lparr>fs := (fs w1)(file \<mapsto>
                       collection_header @ concat writeable_unmatched_records @ collection_footer)\<rparr>
           in (Inr (),
               if fs w2 file \<noteq> None
               then echo (''Created '' @ file @ '' in current directory'') w2 else w2))"

section \<open>Snapshot and Mutator\<close>

definition backup_command :: "string \<Rightarrow> string" where
  "backup_command name = ''cp '' @ name @ '' '' @ name @ ''.backup''"

text \<open>\<open>create_backup\<close> returns \<^verbatim>\<open>True\<close> on exit status 0 and \<^verbatim>\<open>None\<close>, which is false, otherwise.\<close>

definition create_backup :: "env \<Rightarrow> nat \<Rightarrow> string \<Rightarrow> world \<Rightarrow> bool \<times> world" where
  "create_backup e length' name w =
     (let (status, fs') = os_system e (backup_command name) (fs w)
      in (status = 0, w\<lparr>fs := fs'\<rparr>))"

text \<open>
  The message of the handler in \<open>remove_unmatched\<close>. \<^verbatim>\<open>.format(unmatch)\<close> is applied to what
  \<^verbatim>\<open>click.echo\<close> returns, not to the text, so the text is echoed with its braces.
\<close>

definition not_removed_msg :: string where
  "not_removed_msg =
     ''Couldn'' @ [CHR 0x27] @ ''t remove previously found Record: 001 = {}.'' @ [CHR 0x0A] @
     ''Ensure the MARCXML is well-formed.''"

text \<open>
  The loop of \<open>remove_unmatched\<close>:
  \<^verbatim>\<open>soup.find('marc:controlfield', {"tag": "001"}, string=unmatch).parent.decompose()\<close>.
  When \<^verbatim>\<open>find\<close> gives \<^verbatim>\<open>None\<close> the \<^verbatim>\<open>AttributeError\<close> is caught and the handler runs
  \<^verbatim>\<open>click.echo("...").format(unmatch)\<close>: the line is echoed, \<^verbatim>\<open>click.echo\<close> returns \<^verbatim>\<open>None\<close>, and
  \<^verbatim>\<open>None.format\<close> raises a second \<^verbatim>\<open>AttributeError\<close>, inside the handler, which nothing
  catches. When the controlfield found is a top-level node its parent is the document
  object; decomposing that destroys the handle the rest of the run works on, and the model
  stops there with \<open>DocumentDecomposed\<close>.
  The result is the error (if any), the tree and the world at that moment.
\<close>

fun decompose_unmatched :: "node \<Rightarrow> string list \<Rightarrow> world \<Rightarrow> py_error option \<times> node \<times> world" where
  "decompose_unmatched sp [] w = (None, sp, w)"
| "decompose_unmatched sp (unmatch # unmatched_ids) w =
     (case find_first ''marc:controlfield'' [(''tag'', ''001'')] (Some unmatch) sp of
        None \<Rightarrow> (Some AttributeError, sp, echo not_removed_msg w)
      | Some (p, par, cf) \<Rightarrow>
          if butlast p = [] then (Some DocumentDecomposed, sp, w)
          else decompose_unmatched (delete_at (butlast p) sp) unmatched_ids w)"

text \<open>\<^verbatim>\<open>re.sub('[\n]{2}', '', s)\<close>: every pair of line feeds, from the left, is removed.\<close>

fun scrub :: "string \<Rightarrow> string" where
  "scrub (a # b # s) = (if a = CHR 0x0A \<and> b = CHR 0x0A then scrub s else a # scrub (b # s))"
| "scrub s = s"

definition remove_unmatched ::
    "env \<Rightarrow> string list \<Rightarrow> node \<Rightarrow> string \<Rightarrow> world \<Rightarrow> (py_error + bool) \<times> node \<times> world" where
  "remove_unmatched e unmatched_ids sp name w =
     (case decompose_unmatched sp unmatched_ids w of
        (Some err, sp', w') \<Rightarrow> (Inl err, sp', w')
      | (None, sp', w') \<Rightarrow>
          (Inr True, sp', w'\<lparr>fs := (fs w')(name \<mapsto> scrub (str_of e sp'))\<rparr>))"

section \<open>The run\<close>

text \<open>
  The arguments of a run: the flag, the strings the reference source gives (the lines of the
  text file, or the paths of the directory listing), the name of the collection file and the
  tree the parser built from it.
\<close>

record args =
  text_file :: bool
  source_strings :: "string list"
  marcxml_name :: string
  marcxml_soup :: node

datatype outcome = Returned | Exited int | Raised py_error

text \<open>
  \<open>process\<close>. The test \<^verbatim>\<open>len(unmatched_record_ids) is not 0\<close> is that of inequality (small
  integers are shared objects in CPython); \<^verbatim>\<open>exit(0)\<close> ends the run with status 0; an
  exception that nothing catches ends it with \<open>Raised\<close>. The result is how the run ended, the
  tree and the world at that moment.
\<close>

definition found_msg :: "nat \<Rightarrow> string" where
  "found_msg n = ''Found '' @ str_nat n @ '' unmatched items to remove''"

definition build_index :: "args \<Rightarrow> string list" where
  "build_index a =
     (if text_file a then plaintext_to_index (source_strings a)
      else filenames_to_index (source_strings a))"

definition process :: "env \<Rightarrow> args \<Rightarrow> world \<Rightarrow> outcome \<times> node \<times> world" where
  "process e a w =
     (let index = build_index a
      in case parse_marcxml (marcxml_soup a) of
           Inl err \<Rightarrow> (Raised err, extract_extra (marcxml_soup a), w)
         | Inr parsed \<Rightarrow>
             let unmatched_record_ids = diff_index_records index (collection parsed) in
             if length unmatched_record_ids \<noteq> 0 then
               let w1 = echo (found_msg (length unmatched_record_ids)) w
               in case save_unmatched_records e unmatched_record_ids (soup parsed) (marcxml_name a) w1 of
                    (Inl err, w2) \<Rightarrow> (Raised err, soup parsed, w2)
                  | (Inr u, w2) \<Rightarrow>
                      (case create_backup e (len parsed) (marcxml_name a) w2 of
                         (False, w3) \<Rightarrow> (Returned, soup parsed, w3)
                       | (True, w3) \<Rightarrow>
                           (case remove_unmatched e unmatched_record_ids (soup parsed) (marcxml_name a) w3 of
                              (Inl err, sp', w4) \<Rightarrow> (Raised err, sp', w4)
                            | (Inr False, sp', w4) \<Rightarrow> (Returned, sp', w4)
                            | (Inr True, sp', w4) \<Rightarrow>
                                (Returned, sp',
                                 echo (''Filtered out '' @ str_nat (length unmatched_record_ids) @
                                       '' unmatched records from '' @ marcxml_name a) w4)))
             else (Exited 0, soup parsed, echo ''No unmatched items found. Exiting.'' w))"

section \<open>Properties and example documents\<close>






text \<open>The building blocks of a MARCXML document.\<close>

definition controlfield :: "string \<Rightarrow> string \<Rightarrow> node" where
  "controlfield t s = Tag ''marc:controlfield'' [(''tag'', t)] [NavigableString s]"

definition subfield :: "string \<Rightarrow> string \<Rightarrow> node" where
  "subfield c s = Tag ''marc:subfield'' [(''code'', c)] [NavigableString s]"

definition datafield :: "string \<Rightarrow> node list \<Rightarrow> node" where
  "datafield t sfs = Tag ''marc:datafield'' [(''tag'', t), (''ind1'', '' ''), (''ind2'', '' '')] sfs"

definition marc_record :: "node list \<Rightarrow> node" where
  "marc_record flds = Tag ''marc:record'' [] flds"

definition marc_collection :: "node list \<Rightarrow> node" where
  "marc_collection rs =
     Tag ''marc:collection'' [(''xmlns:marc'', ''http://www.loc.gov/MARC21/slim'')] rs"

text \<open>A datafield 028 with no subfield, and a record with no controlfield 001.\<close>

definition doc_no_subfield :: node where
  "doc_no_subfield = BeautifulSoup [marc_collection
     [marc_record [controlfield ''001'' ''rec1'', datafield ''028'' []]]]"

definition doc_no_001 :: node where
  "doc_no_001 = BeautifulSoup [marc_collection
     [marc_record [controlfield ''003'' ''OCoLC'',
                   datafield ''028'' [subfield ''a'' ''9780000012345'']]]]"

text \<open>One record, then one and two nodes more at the top level.\<close>

definition rec1 :: node where
  "rec1 = marc_record [controlfield ''001'' ''rec1'',
                       datafield ''028'' [subfield ''a'' ''9780000012345'']]"

definition doc_two_top :: node where
  "doc_two_top = BeautifulSoup [marc_collection [rec1], PreformattedString ''xml-stylesheet'']"

definition doc_three_top :: node where
  "doc_three_top = BeautifulSoup [marc_collection [rec1], PreformattedString ''xml-stylesheet'',
                                  PreformattedString ''end'']"


text \<open>
  An environment for the examples: a serialiser that writes tags, attributes and text as
  they are, a \<^verbatim>\<open>cp\<close> that copies the file when it exists and fails otherwise (and a shell that
  knows no other command), and a file system where every path can be opened for writing.
\<close>

fun xml_str :: "node \<Rightarrow> string" where
  "xml_str (Tag name attrs cs) =
     ''<'' @ name @ concat (map (\<lambda>(k, v). '' '' @ k @ ''='' @ [CHR 0x22] @ v @ [CHR 0x22]) attrs) @ ''>'' @
     concat (map xml_str cs) @ ''</'' @ name @ ''>''"
| "xml_str (NavigableString s) = s"
| "xml_str (PreformattedString s) = ''<!--'' @ s @ ''-->''"

definition cp_system :: "string \<Rightarrow> string \<Rightarrow> filesys \<Rightarrow> int \<times> filesys" where
  "cp_system name cmd files =
     (if cmd = backup_command name then
        (case files name of
           Some content \<Rightarrow> (0, files(name @ ''.backup'' \<mapsto> content))
         | None \<Rightarrow> (1, files))
      else (127, files))"

definition example_env :: "string \<Rightarrow> env" where
  "example_env name = \<lparr>str_of = xml_str, os_system = cp_system name, open_w = (\<lambda>files path. True)\<rparr>"

definition example_world :: "string \<Rightarrow> world" where
  "example_world name = \<lparr>fs = [name \<mapsto> ''<marc:collection/>''], out = []\<rparr>"




definition rec_mixed :: node where
  "rec_mixed = marc_record
     [Tag ''marc:controlfield'' [(''tag'', ''001'')]
        [NavigableString ''rec'', PreformattedString ''note'', NavigableString ''3''],
      datafield ''028'' [subfield ''a'' ''9780000077777'']]"

definition doc_mixed_key :: node where
  "doc_mixed_key = BeautifulSoup [marc_collection [rec_mixed]]"




text \<open>The arguments, the index and the parse results of the example runs.\<close>

definition example_name :: string where
  "example_name = ''data/records.xml''"

definition example_args :: "node \<Rightarrow> args" where
  "example_args d =
     \<lparr>text_file = True, source_strings = [''cover'', ''9780000012345_v2''],
      marcxml_name = example_name, marcxml_soup = d\<rparr>"

definition doc_one :: node where
  "doc_one = BeautifulSoup [marc_collection [rec1]]"

definition parsed_one :: parsed where
  "parsed_one = \<lparr>len = 1, collection = [(''rec1'', ''9780000012345'')], soup = doc_one\<rparr>"




definition exported_records :: "node \<Rightarrow> string list \<Rightarrow> node list" where
  "exported_records sp ids = fst (locate_unmatched sp ids ([], \<lparr>fs = Map.empty, out = []\<rparr>))"






section \<open>Theorems\<close>

lemma set_uniq: "set (uniq xs) = set xs"
  by (induction xs) auto

lemma distinct_uniq: "distinct (uniq xs)"
  by (induction xs) (auto simp: set_uniq)

text \<open>
  C1. The matched keys and the unmatched keys returned by \<open>diff_index_records\<close> partition
  the distinct keys of the collection: their union is the set of all keys, and no key is
  in both.
\<close>

theorem C1_partition:
  "set (matching_whitelist_uniq index scn_collection) \<union> set (diff_index_records index scn_collection)
     = fst ` set scn_collection
   \<and> set (matching_whitelist_uniq index scn_collection) \<inter> set (diff_index_records index scn_collection)
     = {}"
  by (auto simp: diff_index_records_def matching_whitelist_uniq_def matching_record_ids_def set_uniq)

subsection \<open>Identifier Extractor\<close>














subsection \<open>Record Parser\<close>

text \<open>
  C7, as the code has it. When the parse yields more than one top-level node,
  \<open>parse_marcxml\<close> takes out one node, the second; the first stays and so does every node
  from the third on. The tree has exactly one top-level node when the parser gave two.
\<close>

theorem C7_extract_second:
  "parse_marcxml (BeautifulSoup (a # b # rest)) = Inr p \<Longrightarrow> contents (soup p) = a # rest"
  by (auto simp: parse_marcxml_def extract_extra_def BeautifulSoup_def Let_def split: sum.splits)

theorem C7_extract_second_witness:
  "parse_marcxml (BeautifulSoup [marc_collection [rec1], PreformattedString ''xml-stylesheet''])
     = Inr \<lparr>len = 1, collection = [(''rec1'', ''9780000012345'')],
            soup = BeautifulSoup [marc_collection [rec1]]\<rparr>
   \<and> contents (BeautifulSoup [marc_collection [rec1]]) = [marc_collection [rec1]]"
proof -
  have e: "parse_marcxml (BeautifulSoup [marc_collection [rec1], PreformattedString ''xml-stylesheet''])
     = Inr \<lparr>len = 1, collection = [(''rec1'', ''9780000012345'')],
            soup = BeautifulSoup [marc_collection [rec1]]\<rparr>"
    by code_simp
  show ?thesis using C7_extract_second [OF e] e by simp
qed

text \<open>
  C7 as stated fails: of three top-level nodes two are left.
\<close>

theorem C7_three_top_counterexample:
  "map_sum id (\<lambda>p. contents (soup p)) (parse_marcxml doc_three_top)
     = Inr [marc_collection [rec1], PreformattedString ''end'']"
  by code_simp

text \<open>
  C10. \<open>parse_marcxml\<close> raises \<^verbatim>\<open>AttributeError\<close> on a document with a datafield 028 that has
  no subfield, and on one with a qualifying datafield 028 whose record has no controlfield
  001; nothing catches it, so the run ends with it and the record is not skipped.
\<close>

theorem C10_parse_not_total:
  "parse_marcxml doc_no_subfield = Inl AttributeError
   \<and> parse_marcxml doc_no_001 = Inl AttributeError
   \<and> fst (process e \<lparr>text_file = t, source_strings = src, marcxml_name = name,
                     marcxml_soup = doc_no_subfield\<rparr> w) = Raised AttributeError
   \<and> fst (process e \<lparr>text_file = t, source_strings = src, marcxml_name = name,
                     marcxml_soup = doc_no_001\<rparr> w) = Raised AttributeError"
proof -
  have a: "parse_marcxml doc_no_subfield = Inl AttributeError" by code_simp
  have b: "parse_marcxml doc_no_001 = Inl AttributeError" by code_simp
  show ?thesis using a b by (simp add: process_def)
qed

subsection \<open>Unmatched Exporter\<close>

text \<open>
  C8. For a source given as a bare file name the audit path is not beside the source: the
  directory part is empty, the slash is put in front all the same, and the path is an
  absolute one in the root directory. With a directory part the file is beside the source.
\<close>

theorem C8_bare_filename:
  "unmatched_records_file 2 ''records.xml'' = ''/2_unmatchable_records.xml''
   \<and> dirname ''records.xml'' = []
   \<and> dirname (unmatched_records_file 2 ''records.xml'') = ''/''
   \<and> unmatched_records_file 2 ''data/records.xml'' = ''data/2_unmatchable_records.xml''"
  by code_simp

subsection \<open>The collection the parser builds\<close>





subsection \<open>The example runs\<close>


lemma parse_doc_one: "parse_marcxml doc_one = Inr parsed_one"
  by code_simp



subsection \<open>Matcher\<close>






text \<open>
  C3. When the parse succeeds and \<open>diff_index_records\<close> returns no key, the run exits with
  status 0 after one echoed line: the files are those of before (no backup, no audit file,
  the source as it was) and the tree is the parsed one.
\<close>

theorem C3_empty_unmatched:
  assumes "parse_marcxml (marcxml_soup a) = Inr p"
    and "diff_index_records (build_index a) (collection p) = []"
  shows "process e a w
           = (Exited 0, soup p, w\<lparr>out := out w @ [''No unmatched items found. Exiting.'']\<rparr>)
         \<and> fs (snd (snd (process e a w))) = fs w"
  using assms by (simp add: process_def echo_def)

theorem C3_empty_unmatched_witness:
  "process (example_env example_name) (example_args doc_one) (example_world example_name)
     = (Exited 0, soup parsed_one,
        (example_world example_name)
          \<lparr>out := out (example_world example_name) @ [''No unmatched items found. Exiting.'']\<rparr>)
   \<and> fs (snd (snd (process (example_env example_name) (example_args doc_one)
                     (example_world example_name))))
       = fs (example_world example_name)"
proof -
  have p: "parse_marcxml (marcxml_soup (example_args doc_one)) = Inr parsed_one"
    using parse_doc_one by (simp add: example_args_def)
  have d: "diff_index_records (build_index (example_args doc_one)) (collection parsed_one) = []"
    by code_simp
  show ?thesis by (rule C3_empty_unmatched [OF p d])
qed

subsection \<open>Collection documents in the plain form\<close>




























subsection \<open>Snapshot and Mutator\<close>

text \<open>
  C4. The controlfield 001 of \<open>rec_mixed\<close> holds a comment between two pieces of text: its
  key is \<open>rec3\<close>, and no \<^verbatim>\<open>find\<close> with that string locates it. The export reports it and goes
  on (the audit file is written, with no record in it). The removal echoes its line and then
  raises \<^verbatim>\<open>AttributeError\<close>, which ends the run; the source file is not written.
\<close>

theorem C4_removal_raises:
  "exported_records doc_mixed_key [''rec3''] = []
   \<and> fst (process (example_env example_name) (example_args doc_mixed_key)
            (example_world example_name)) = Raised AttributeError
   \<and> out (snd (snd (process (example_env example_name) (example_args doc_mixed_key)
                      (example_world example_name))))
       = [found_msg 1, not_found_msg ''rec3'',
          ''Created data/1_unmatchable_records.xml in current directory'', not_removed_msg]
   \<and> fs (snd (snd (process (example_env example_name) (example_args doc_mixed_key)
                     (example_world example_name)))) example_name
       = Some ''<marc:collection/>''
   \<and> fs (snd (snd (process (example_env example_name) (example_args doc_mixed_key)
                     (example_world example_name)))) ''data/1_unmatchable_records.xml''
       = Some (collection_header @ collection_footer)"
  by code_simp













lemma decompose_unmatched_tree:
  "decompose_unmatched sp ids w = (None, sp', w') \<Longrightarrow> w' = w"
proof (induction ids arbitrary: sp)
  case Nil
  then show ?case by simp
next
  case (Cons u us)
  show ?case
  proof (cases "find_first ''marc:controlfield'' [(''tag'', ''001'')] (Some u) sp")
    case None
    then show ?thesis using Cons.prems by auto
  next
    case (Some h)
    obtain q par cf where h: "h = (q, par, cf)" by (cases h) auto
    show ?thesis
    proof (cases "butlast q = []")
      case True
      then show ?thesis using Cons.prems Some h by auto
    next
      case False
      then have "decompose_unmatched (delete_at (butlast q) sp) us w = (None, sp', w')"
        using Cons.prems Some h by simp
      then show ?thesis by (rule Cons.IH)
    qed
  qed
qed




end
